theory Spec2Isabelle
  imports Complex_Main
begin

section \<open>Characters and strings of the source language\<close>

text \<open>
  A Python \<open>str\<close> is modelled as a \<open>string\<close>; a \<open>char\<close> stands for a code point
  below 256. \<open>isspace\<close> lists the code points of that range for which Python's
  \<open>str.isspace\<close> holds; \<open>str.strip()\<close> and the regular expression class \<open>\s\<close> both
  use it.
\<close>

definition isspace :: "char \<Rightarrow> bool" where
  "isspace c \<longleftrightarrow> c \<in> set [CHR 0x09, CHR 0x0A, CHR 0x0B, CHR 0x0C, CHR 0x0D,
                        CHR 0x1C, CHR 0x1D, CHR 0x1E, CHR 0x1F, CHR 0x20,
                        CHR 0x85, CHR 0xA0]"

text \<open>The character class \<open>[0-9]\<close>.\<close>

definition isdigit :: "char \<Rightarrow> bool" where
  "isdigit c \<longleftrightarrow> c \<in> set ''0123456789''"

text \<open>\<open>str.strip()\<close>: leading and trailing whitespace removed.\<close>

definition strip :: "string \<Rightarrow> string" where
  "strip s = rev (dropWhile isspace (rev (dropWhile isspace s)))"

text \<open>\<open>s.startswith(p)\<close> for a one-character prefix \<open>p\<close>.\<close>

definition startswith :: "string \<Rightarrow> char \<Rightarrow> bool" where
  "startswith s p = (case s of [] \<Rightarrow> False | c # _ \<Rightarrow> c = p)"

text \<open>\<open>line.split(" ")\<close>: split at every single space; empty pieces are kept.\<close>

fun split_space :: "string \<Rightarrow> string list" where
  "split_space [] = [[]]"
| "split_space (c # cs) =
     (if c = CHR '' '' then [] # split_space cs
      else (case split_space cs of
              [] \<Rightarrow> [[c]]
            | p # ps \<Rightarrow> (c # p) # ps))"

section \<open>The four regular expressions\<close>

text \<open>
  Each pattern is used with \<open>re.match\<close>, which anchors at the start of the string.
  Without flags \<open>.\<close> matches every character but the newline, and \<open>$\<close> matches at
  the end of the string and just before a newline that ends the string.
\<close>

definition newline :: char where
  "newline = CHR 0x0A"

text \<open>What is left of the string matches \<open>$\<close>.\<close>

definition at_end :: "string \<Rightarrow> bool" where
  "at_end s \<longleftrightarrow> s = [] \<or> s = [newline]"

text \<open>What is left of the string matches \<open>.*$\<close>.\<close>

definition dot_star_end :: "string \<Rightarrow> bool" where
  "dot_star_end s \<longleftrightarrow> at_end (dropWhile (\<lambda>c. c \<noteq> newline) s)"

text \<open>
  What is left of the string matches \<open>.*\)$\<close>: some closing parenthesis, reached over
  characters other than the newline, is followed by the end.
\<close>

fun dot_star_paren_end :: "string \<Rightarrow> bool" where
  "dot_star_paren_end [] = False"
| "dot_star_paren_end (c # cs) =
     ((c = CHR '')'' \<and> at_end cs) \<or> (c \<noteq> newline \<and> dot_star_paren_end cs))"

text \<open>\<open>_COMMENT_PATTERN = ^\(.*\)$\<close>\<close>

definition COMMENT_PATTERN :: "string \<Rightarrow> bool" where
  "COMMENT_PATTERN s = (case s of [] \<Rightarrow> False | c # cs \<Rightarrow> c = CHR ''('' \<and> dot_star_paren_end cs)"

text \<open>\<open>_PROGRAM_NUM_PATTERN = ^O[0-9]{4}$\<close>\<close>

definition PROGRAM_NUM_PATTERN :: "string \<Rightarrow> bool" where
  "PROGRAM_NUM_PATTERN s =
     (case s of
        c # d1 # d2 # d3 # d4 # r \<Rightarrow>
          c = CHR ''O'' \<and> isdigit d1 \<and> isdigit d2 \<and> isdigit d3 \<and> isdigit d4 \<and> at_end r
      | _ \<Rightarrow> False)"

text \<open>
  \<open>_CMD_PATTERN = ^N[0-9]+\s.*$\<close>. A digit is never whitespace, so the greedy
  \<open>[0-9]+\<close> has to take every leading digit.
\<close>

definition CMD_PATTERN :: "string \<Rightarrow> bool" where
  "CMD_PATTERN s =
     (case s of
        [] \<Rightarrow> False
      | c # cs \<Rightarrow>
          c = CHR ''N'' \<and> takeWhile isdigit cs \<noteq> [] \<and>
          (case dropWhile isdigit cs of
             [] \<Rightarrow> False
           | w # r \<Rightarrow> isspace w \<and> dot_star_end r))"

text \<open>
  \<open>_CMD_START_PATTERN = ^N[0-9]+|^G[0-9]+|^M[0-9]+|^S[0-9]+|^F[0-9]+\<close>: nothing follows
  the digits in the pattern, so one digit after the letter decides the match.
\<close>

definition CMD_START_PATTERN :: "string \<Rightarrow> bool" where
  "CMD_START_PATTERN s =
     (case s of
        c # d # _ \<Rightarrow> c \<in> set ''NGMSF'' \<and> isdigit d
      | _ \<Rightarrow> False)"

section \<open>The line classifier\<close>

definition is_comment :: "string \<Rightarrow> bool" where
  "is_comment line = COMMENT_PATTERN line"

definition is_program_number :: "string \<Rightarrow> bool" where
  "is_program_number line = PROGRAM_NUM_PATTERN line"

text \<open>The generator \<open>_non_empty_lines\<close>, as the list of the lines it yields.\<close>

fun non_empty_lines :: "string list \<Rightarrow> string list" where
  "non_empty_lines [] = []"
| "non_empty_lines (line # lines) =
     (let stripped_line = strip line in
      if length stripped_line \<noteq> 0
         \<and> \<not> is_comment stripped_line
         \<and> \<not> is_program_number stripped_line
         \<and> stripped_line \<noteq> ''%''
      then stripped_line # non_empty_lines lines
      else non_empty_lines lines)"

text \<open>\<open>enumerate(xs, start=n)\<close>\<close>

fun enumerate_from :: "nat \<Rightarrow> 'a list \<Rightarrow> (nat \<times> 'a) list" where
  "enumerate_from n [] = []"
| "enumerate_from n (x # xs) = (n, x) # enumerate_from (Suc n) xs"

section \<open>The argument extractor\<close>

text \<open>
  The loop \<open>for j in range(max_idx)\<close> of \<open>extract_args\<close>, from position \<open>j\<close> with the
  arguments collected so far; \<open>break\<close> returns them.
\<close>

function extract_args_loop :: "string list \<Rightarrow> nat \<Rightarrow> nat \<Rightarrow> string list \<Rightarrow> string list" where
  "extract_args_loop parts max_idx j args =
     (if j < max_idx then
        (if CMD_START_PATTERN (parts ! j) then args
         else extract_args_loop parts max_idx (Suc j) (args @ [parts ! j]))
      else args)"
  by pat_completeness auto
termination
  by (relation "measure (\<lambda>(parts, max_idx, j, args). max_idx - j)") auto

declare extract_args_loop.simps [simp del]

text \<open>\<open>max_idx\<close> never exceeds \<open>len(parts)\<close>, so every read \<open>parts[j]\<close> is in range.\<close>

definition extract_args :: "string list \<Rightarrow> nat \<Rightarrow> string list" where
  "extract_args parts max_n_args =
     (let max_idx = min (length parts) max_n_args in
      extract_args_loop parts max_idx 0 [])"

section \<open>Numbers read from tokens\<close>

text \<open>
  A Python \<open>float\<close> is modelled by the exact value of the decimal literal it was read
  from, or by one of the special values; a literal too large for binary64 is read as an
  infinity, as Python does. The rounding of a literal to the nearest binary64 number and
  the sign of a zero are not modelled. Literals such as \<open>10.000\<close>, \<open>5.000\<close> and \<open>1.5\<close>
  are binary64 numbers, so there the model's value is Python's.
\<close>

datatype pyfloat = Finite real | Infinite bool | NaN

definition digit_val :: "char \<Rightarrow> nat" where
  "digit_val c = of_char c - of_char (CHR ''0'')"

definition digits_val :: "string \<Rightarrow> nat" where
  "digits_val ds = foldl (\<lambda>a c. 10 * a + digit_val c) 0 ds"

text \<open>
  The longest prefix of the form \<open>digit (["_"] digit)*\<close>: its digits, underscores left
  out, and what follows it. \<open>digitpart_rest\<close> continues after a digit.
\<close>

fun digitpart_rest :: "string \<Rightarrow> string \<times> string" where
  "digitpart_rest (c # d # cs) =
     (if isdigit c then (let (ds, r) = digitpart_rest (d # cs) in (c # ds, r))
      else if c = CHR ''_'' \<and> isdigit d then (let (ds, r) = digitpart_rest cs in (d # ds, r))
      else ([], c # d # cs))"
| "digitpart_rest [c] = (if isdigit c then ([c], []) else ([], [c]))"
| "digitpart_rest [] = ([], [])"

definition digitpart :: "string \<Rightarrow> string \<times> string" where
  "digitpart s =
     (case s of
        [] \<Rightarrow> ([], [])
      | c # cs \<Rightarrow> if isdigit c then (let (ds, r) = digitpart_rest cs in (c # ds, r)) else ([], s))"

text \<open>An optional sign: whether it is a minus, and what follows it.\<close>

definition sign_part :: "string \<Rightarrow> bool \<times> string" where
  "sign_part s =
     (case s of
        [] \<Rightarrow> (False, [])
      | c # cs \<Rightarrow> if c = CHR ''-'' then (True, cs) else if c = CHR ''+'' then (False, cs) else (False, s))"

definition lower_char :: "char \<Rightarrow> char" where
  "lower_char c =
     (case map_of (zip ''ABCDEFGHIJKLMNOPQRSTUVWXYZ'' ''abcdefghijklmnopqrstuvwxyz'') c of
        None \<Rightarrow> c
      | Some l \<Rightarrow> l)"

definition upper_char :: "char \<Rightarrow> char" where
  "upper_char c =
     (case map_of (zip ''abcdefghijklmnopqrstuvwxyz'' ''ABCDEFGHIJKLMNOPQRSTUVWXYZ'') c of
        None \<Rightarrow> c
      | Some u \<Rightarrow> u)"

text \<open>
  \<open>str.upper()\<close> on the letters a to z. The source compares the result with \<open>"G00"\<close>
  only, and no other character has \<open>G\<close> or \<open>0\<close> as its upper case.
\<close>

definition upper :: "string \<Rightarrow> string" where
  "upper s = map upper_char s"

text \<open>
  The exponent of a float literal: \<open>("e" | "E") [sign] digitpart\<close> up to the end of the
  string, or nothing at all.
\<close>

definition exponent_part :: "string \<Rightarrow> int option" where
  "exponent_part s =
     (case s of
        [] \<Rightarrow> Some 0
      | c # cs \<Rightarrow>
          if c = CHR ''e'' \<or> c = CHR ''E'' then
            (let (neg, r) = sign_part cs; (ds, r') = digitpart r in
             if ds = [] \<or> r' \<noteq> [] then None
             else Some (if neg then - int (digits_val ds) else int (digits_val ds)))
          else None)"

definition scale10 :: "real \<Rightarrow> int \<Rightarrow> real" where
  "scale10 m e = (if 0 \<le> e then m * 10 ^ nat e else m / 10 ^ nat (- e))"

text \<open>
  \<open>number [exponent]\<close> with
  \<open>number ::= [digitpart] "." digitpart | digitpart ["."]\<close>.
\<close>

definition floatnumber :: "string \<Rightarrow> real option" where
  "floatnumber s =
     (let (ip, r) = digitpart s;
          (fp, r') = (case r of
                        [] \<Rightarrow> ([], [])
                      | c # cs \<Rightarrow> if c = CHR ''.'' then digitpart cs else ([], r))
      in if ip = [] \<and> fp = [] then None
         else (case exponent_part r' of
                 None \<Rightarrow> None
               | Some e \<Rightarrow>
                   Some (scale10 (real (digits_val (ip @ fp)) / 10 ^ length fp) e)))"

text \<open>
  The code points below 256 that \<open>float\<close> and \<open>int\<close> ignore around a number. They are
  fewer than those of \<open>str.isspace\<close>: the separators \<open>0x1C\<close> to \<open>0x1F\<close> are not among
  them, and a number padded with one of those is a \<open>ValueError\<close>.
\<close>

definition number_space :: "char \<Rightarrow> bool" where
  "number_space c \<longleftrightarrow> c \<in> set [CHR 0x09, CHR 0x0A, CHR 0x0B, CHR 0x0C, CHR 0x0D, CHR 0x20,
                             CHR 0x85, CHR 0xA0]"

definition strip_number :: "string \<Rightarrow> string" where
  "strip_number s = rev (dropWhile number_space (rev (dropWhile number_space s)))"

text \<open>
  The least magnitude that \<open>float\<close> reads as an infinity: half way between the largest
  binary64 number, \<open>2 ^ 1024 - 2 ^ 971\<close>, and \<open>2 ^ 1024\<close>.
\<close>

definition overflow_bound :: real where
  "overflow_bound = 2 ^ 1024 - 2 ^ 970"

text \<open>
  \<open>float(s)\<close> for a string \<open>s\<close>: surrounding whitespace is ignored, then
  \<open>[sign] (floatnumber | "inf" | "infinity" | "nan")\<close>, the words in any case; a number
  whose magnitude reaches \<open>overflow_bound\<close> is read as the infinity of its sign.
  \<open>None\<close> is the \<open>ValueError\<close>.
\<close>

definition py_float :: "string \<Rightarrow> pyfloat option" where
  "py_float s =
     (let (neg, r) = sign_part (strip_number s); w = map lower_char r in
      if w = ''inf'' \<or> w = ''infinity'' then Some (Infinite neg)
      else if w = ''nan'' then Some NaN
      else (case floatnumber r of
              None \<Rightarrow> None
            | Some v \<Rightarrow>
                Some (if overflow_bound \<le> v then Infinite neg
                      else Finite (if neg then - v else v))))"

text \<open>
  The greatest number of digits that \<open>int\<close> converts from a string, as the interpreter
  sets it by default (\<open>sys.int_info.default_max_str_digits\<close>); leading zeros count,
  underscores, the sign and the whitespace do not.
\<close>

definition max_str_digits :: nat where
  "max_str_digits = 4300"

text \<open>
  \<open>int(s)\<close> for a string \<open>s\<close>, base ten: surrounding whitespace is ignored, then
  \<open>[sign] digitpart\<close> of no more than \<open>max_str_digits\<close> digits. \<open>None\<close> is the
  \<open>ValueError\<close>.
\<close>

definition py_int :: "string \<Rightarrow> int option" where
  "py_int s =
     (let (neg, r) = sign_part (strip_number s); (ds, r') = digitpart r in
      if ds = [] \<or> r' \<noteq> [] \<or> max_str_digits < length ds then None
      else Some (if neg then - int (digits_val ds) else int (digits_val ds)))"

section \<open>Actuator calls and errors\<close>

text \<open>
  The methods of \<open>MachineClient\<close> that stand for the machine only print; a run is
  observed through the sequence of these calls, and of the texts that handlers print
  themselves.
\<close>

datatype action =
    Home
  | Move pyfloat pyfloat pyfloat
  | Move_x pyfloat
  | Move_y pyfloat
  | Move_z pyfloat
  | Set_feed_rate pyfloat
  | Set_spindle_speed int
  | Change_tool string
  | Coolant_on
  | Coolant_off
  | Print string

text \<open>
  The exceptions the interpreter raises, each with the values its message is built from:
  \<^item> \<open>Expected_command ln\<close>: \<open>RuntimeError("[Line {ln}]: Expected a command starting with 'N*'")\<close>
  \<^item> \<open>Unknown_code ln next_part\<close>: \<open>RuntimeError("[Line: {ln}]: Unknown code {next_part}")\<close>
  \<^item> \<open>Unknown_parameter ln p gcode\<close>: \<open>RuntimeError("[Line {ln}]: Unknown parameter {p} for code: {gcode}")\<close>
  \<^item> \<open>Bad_argument ln arg gcode\<close>: \<open>ValueError("[Line {ln}]: Could not parse argument {arg} for code {gcode}: (...)")\<close>
  \<^item> \<open>Bad_code ln gcode\<close>: \<open>ValueError("[Line {ln}]: Could not parse code {gcode}: (...)")\<close>
  \<^item> \<open>Bad_command ln gcode\<close>: \<open>ValueError("[Line {ln}]: Could not parse command {gcode}: (...)")\<close>
  \<^item> \<open>Assertion_error\<close>: a failed \<open>assert len(gcode) > 1\<close>
\<close>

datatype error =
    Expected_command nat
  | Unknown_code nat string
  | Unknown_parameter nat string string
  | Bad_argument nat string string
  | Bad_code nat string
  | Bad_command nat string
  | Assertion_error

section \<open>Command handlers\<close>

text \<open>
  A handler takes the code token, the line number (\<open>ln\<close> in the source, \<open>ln_no\<close> here,
  since \<open>ln\<close> is the logarithm) and the argument tokens; it returns the calls it made, or
  the exception it raised (no handler makes a call before it raises).
\<close>

type_synonym handler = "string \<Rightarrow> nat \<Rightarrow> string list \<Rightarrow> error + action list"

definition parse_tool :: handler where
  "parse_tool gcode ln_no args =
     (if \<not> (length gcode > 1) then Inl Assertion_error
      else (let tool = drop 1 gcode in Inr [Change_tool tool]))"

definition parse_feedrate :: handler where
  "parse_feedrate gcode ln_no args =
     (if \<not> (length gcode > 1) then Inl Assertion_error
      else (case py_float (drop 1 gcode) of
              None \<Rightarrow> Inl (Bad_code ln_no gcode)
            | Some val \<Rightarrow> Inr [Set_feed_rate val]))"

definition parse_speed :: handler where
  "parse_speed gcode ln_no args =
     (if \<not> (length gcode > 1) then Inl Assertion_error
      else (case py_int (drop 1 gcode) of
              None \<Rightarrow> Inl (Bad_command ln_no gcode)
            | Some speed \<Rightarrow> Inr [Set_spindle_speed speed]))"

text \<open>
  The loop \<open>for arg in args\<close> of the general branch of \<open>_parse_move\<close>, over the arguments
  still to read, with the coordinates so far. The message of the \<open>RuntimeError\<close> is built
  from \<open>args[0]\<close>, the first of all the arguments.
\<close>

fun parse_move_loop ::
  "string \<Rightarrow> nat \<Rightarrow> string list \<Rightarrow> string list \<Rightarrow> pyfloat \<times> pyfloat \<times> pyfloat
     \<Rightarrow> error + (pyfloat \<times> pyfloat \<times> pyfloat)" where
  "parse_move_loop gcode ln_no args [] (x, y, z) = Inr (x, y, z)"
| "parse_move_loop gcode ln_no args (arg # rest) (x, y, z) =
     (if startswith arg (CHR ''X'') then
        (case py_float (drop 1 arg) of
           None \<Rightarrow> Inl (Bad_argument ln_no arg gcode)
         | Some v \<Rightarrow> parse_move_loop gcode ln_no args rest (v, y, z))
      else if startswith arg (CHR ''Y'') then
        (case py_float (drop 1 arg) of
           None \<Rightarrow> Inl (Bad_argument ln_no arg gcode)
         | Some v \<Rightarrow> parse_move_loop gcode ln_no args rest (x, v, z))
      else if startswith arg (CHR ''Z'') then
        (case py_float (drop 1 arg) of
           None \<Rightarrow> Inl (Bad_argument ln_no arg gcode)
         | Some v \<Rightarrow> parse_move_loop gcode ln_no args rest (x, y, v))
      else Inl (Unknown_parameter ln_no (args ! 0) gcode))"

definition parse_move :: handler where
  "parse_move gcode ln_no args =
     (if upper gcode = ''G00'' \<and> length args = 0 then Inr [Print ''Set rapid positioning'']
      else if length args = 1 then
        (case py_float (drop 1 (args ! 0)) of
           None \<Rightarrow> Inl (Bad_argument ln_no (args ! 0) gcode)
         | Some val \<Rightarrow>
             if startswith (args ! 0) (CHR ''X'') then Inr [Move_x val]
             else if startswith (args ! 0) (CHR ''Y'') then Inr [Move_y val]
             else if startswith (args ! 0) (CHR ''Z'') then Inr [Move_z val]
             else Inl (Unknown_parameter ln_no (args ! 0) gcode))
      else
        (case parse_move_loop gcode ln_no args args (Finite 0, Finite 0, Finite 0) of
           Inl e \<Rightarrow> Inl e
         | Inr (x, y, z) \<Rightarrow> Inr [Move x y z]))"

section \<open>The command registry\<close>

record Cmd =
  n_args :: nat
  fn :: handler

record MachineClient =
  KNOWN_COMMANDS :: "(string \<times> Cmd) list"

text \<open>\<open>MachineClient.__init__\<close>: the dictionary, in the order of the source.\<close>

definition MachineClient_init :: MachineClient where
  "MachineClient_init = \<lparr>KNOWN_COMMANDS = [
     (''G00'', \<lparr>n_args = 3, fn = parse_move\<rparr>),
     (''G01'', \<lparr>n_args = 3, fn = parse_move\<rparr>),
     (''G17'', \<lparr>n_args = 0, fn = (\<lambda>x ln_no args. Inr [Print ''Select XY plane''])\<rparr>),
     (''G21'', \<lparr>n_args = 0, fn = (\<lambda>x ln_no args. Inr [Print ''Set programming in inches''])\<rparr>),
     (''G28'', \<lparr>n_args = 3, fn = (\<lambda>x ln_no args. Inr [Home])\<rparr>),
     (''G40'', \<lparr>n_args = 0, fn = (\<lambda>x ln_no args. Inr [Print ''Set tool radius compensation off''])\<rparr>),
     (''G49'', \<lparr>n_args = 0, fn = (\<lambda>x ln_no args. Inr [Print ''Cancel tool length offset compensation''])\<rparr>),
     (''G54'', \<lparr>n_args = 0, fn = (\<lambda>x ln_no args. Inr [])\<rparr>),
     (''G80'', \<lparr>n_args = 0, fn = (\<lambda>x ln_no args. Inr [Print ''Cancel canned cycle''])\<rparr>),
     (''G90'', \<lparr>n_args = 0, fn = (\<lambda>x ln_no args. Inr [])\<rparr>),
     (''G91'', \<lparr>n_args = 0, fn = (\<lambda>x ln_no args. Inr [])\<rparr>),
     (''G94'', \<lparr>n_args = 0, fn = (\<lambda>x ln_no args. Inr [Print ''Set feedrate in per minutes''])\<rparr>),
     (''M03'', \<lparr>n_args = 0, fn = (\<lambda>x ln_no args. Inr [])\<rparr>),
     (''M05'', \<lparr>n_args = 0, fn = (\<lambda>x ln_no args. Inr [])\<rparr>),
     (''M06'', \<lparr>n_args = 0, fn = parse_tool\<rparr>),
     (''M09'', \<lparr>n_args = 0, fn = (\<lambda>x ln_no args. Inr [Coolant_off])\<rparr>),
     (''M30'', \<lparr>n_args = 0, fn = (\<lambda>x ln_no args. Inr [])\<rparr>),
     (''T'', \<lparr>n_args = 1, fn = parse_tool\<rparr>),
     (''S'', \<lparr>n_args = 0, fn = parse_speed\<rparr>),
     (''F'', \<lparr>n_args = 0, fn = parse_feedrate\<rparr>)]\<rparr>"

section \<open>The dispatch engine\<close>

text \<open>The key a token is looked up under, \<open>None\<close> as in the source.\<close>

definition key_of :: "string \<Rightarrow> string option" where
  "key_of next_part =
     (if startswith next_part (CHR ''G'') \<or> startswith next_part (CHR ''M'') then Some next_part
      else if startswith next_part (CHR ''S'')
              \<or> startswith next_part (CHR ''T'')
              \<or> startswith next_part (CHR ''F'') then Some (take 1 next_part)
      else None)"

definition lookup :: "MachineClient \<Rightarrow> string option \<Rightarrow> Cmd option" where
  "lookup self key = (case key of None \<Rightarrow> None | Some k \<Rightarrow> map_of (KNOWN_COMMANDS self) k)"

text \<open>
  The loop \<open>while ii < len(parts)\<close> of \<open>parse_gcode\<close> on one line, from token \<open>ii\<close>, after
  the calls \<open>out\<close> made so far. The result is the calls made and the exception, if one
  was raised.
\<close>

function dispatch_loop ::
  "MachineClient \<Rightarrow> nat \<Rightarrow> string list \<Rightarrow> nat \<Rightarrow> action list \<Rightarrow> action list \<times> error option" where
  "dispatch_loop self ln_no parts ii out =
     (if ii < length parts then
        (let next_part = parts ! ii in
         if startswith next_part (CHR ''N'') then dispatch_loop self ln_no parts (ii + 1) out
         else
           (case lookup self (key_of next_part) of
              None \<Rightarrow> (out, Some (Unknown_code ln_no next_part))
            | Some cmd \<Rightarrow>
                (let args = extract_args (drop (ii + 1) parts) (n_args cmd) in
                 case fn cmd next_part ln_no args of
                   Inl e \<Rightarrow> (out, Some e)
                 | Inr calls \<Rightarrow> dispatch_loop self ln_no parts (ii + (length args + 1)) (out @ calls))))
      else (out, None))"
  by pat_completeness auto
termination
  by (relation "measure (\<lambda>(self, ln_no, parts, ii, out). length parts - ii)") auto

declare dispatch_loop.simps [simp del]

text \<open>
  The loop \<open>for ln, line in enumerate(_non_empty_lines(lines), start=1)\<close>, over the
  numbered lines still to process.
\<close>

fun parse_numbered ::
  "MachineClient \<Rightarrow> (nat \<times> string) list \<Rightarrow> action list \<Rightarrow> action list \<times> error option" where
  "parse_numbered self [] out = (out, None)"
| "parse_numbered self ((ln_no, line) # rest) out =
     (if \<not> CMD_PATTERN line then (out, Some (Expected_command ln_no))
      else
        (case dispatch_loop self ln_no (split_space line) 0 out of
           (out', Some e) \<Rightarrow> (out', Some e)
         | (out', None) \<Rightarrow> parse_numbered self rest out'))"

text \<open>
  \<open>parse_gcode\<close>, from the lines that \<open>read_gcode\<close> returns (reading the file is not
  modelled).
\<close>

definition parse_gcode :: "MachineClient \<Rightarrow> string list \<Rightarrow> action list \<times> error option" where
  "parse_gcode self lines = parse_numbered self (enumerate_from 1 (non_empty_lines lines)) []"

section \<open>The line classifier as the specification describes it\<close>

text \<open>
  The specification's words for the line classifier, to be compared with
  \<open>non_empty_lines\<close>: a full-line comment is a line that opens with a parenthesis and ends
  with one, a program number is the letter O followed by exactly four digits.
\<close>

definition spec_comment :: "string \<Rightarrow> bool" where
  "spec_comment t \<longleftrightarrow> 2 \<le> length t \<and> hd t = CHR ''('' \<and> last t = CHR '')''"

definition spec_program_number :: "string \<Rightarrow> bool" where
  "spec_program_number t \<longleftrightarrow> length t = 5 \<and> hd t = CHR ''O'' \<and> list_all isdigit (tl t)"

text \<open>A trimmed line that the classifier is to yield.\<close>

definition spec_relevant :: "string \<Rightarrow> bool" where
  "spec_relevant t \<longleftrightarrow> t \<noteq> [] \<and> \<not> spec_comment t \<and> \<not> spec_program_number t \<and> t \<noteq> ''%''"

text \<open>The surviving trimmed lines in order, numbered from one.\<close>

definition spec_classify :: "string list \<Rightarrow> (nat \<times> string) list" where
  "spec_classify lines =
     (let kept = filter spec_relevant (map strip lines) in zip [1..<Suc (length kept)] kept)"

section \<open>Evaluation on concrete input\<close>

text \<open>The defining equations that evaluate the model on a given program.\<close>

lemmas char_defs = isdigit_def isspace_def newline_def at_end_def startswith_def
lemmas pattern_defs = CMD_PATTERN_def CMD_START_PATTERN_def COMMENT_PATTERN_def PROGRAM_NUM_PATTERN_def
  dot_star_end_def is_comment_def is_program_number_def strip_def
lemmas number_defs = py_float_def py_int_def number_space_def strip_number_def overflow_bound_def
  max_str_digits_def sign_part_def lower_char_def upper_char_def upper_def floatnumber_def
  digitpart_def exponent_part_def scale10_def digits_val_def digit_val_def
lemmas handler_defs = parse_move_def parse_tool_def parse_speed_def parse_feedrate_def
lemmas engine_defs = parse_gcode_def dispatch_loop.simps extract_args_def extract_args_loop.simps
  key_of_def lookup_def MachineClient_init_def
lemmas eval_defs = char_defs pattern_defs number_defs handler_defs engine_defs

text \<open>
  The number readers at the edges of what they accept: a separator \<open>0x1C\<close> before a
  number is refused where a no-break space after it is ignored, and a literal beyond
  the binary64 range is an infinity.
\<close>

lemma py_float_edges:
  "py_float (CHR 0x1C # ''1'') = None
   \<and> py_float (''1'' @ [CHR 0xA0]) = Some (Finite 1)
   \<and> py_float ''1e308'' = Some (Finite (10 ^ 308))
   \<and> py_float ''1e400'' = Some (Infinite False)
   \<and> py_float ''-1e400'' = Some (Infinite True)"
  by (simp add: number_defs char_defs)

lemma py_int_edges:
  "py_int (CHR 0x1C # ''1'') = None
   \<and> py_int (CHR 0x20 # ''12'' @ [CHR 0x0A]) = Some 12"
  by (simp add: number_defs char_defs)

section \<open>Properties of the argument extractor\<close>

text \<open>The loop appends to \<open>args\<close> the tokens before the first command start among those left.\<close>

lemma extract_args_loop_eq:
  "j \<le> max_idx \<Longrightarrow> max_idx \<le> length parts \<Longrightarrow>
   extract_args_loop parts max_idx j args =
     args @ takeWhile (\<lambda>t. \<not> CMD_START_PATTERN t) (take (max_idx - j) (drop j parts))"
proof (induction parts max_idx j args rule: extract_args_loop.induct)
  case (1 parts max_idx j args)
  show ?case
  proof (cases "j < max_idx")
    case False
    then show ?thesis using 1 by (simp add: extract_args_loop.simps)
  next
    case True
    then have d: "drop j parts = parts ! j # drop (Suc j) parts"
      using 1 by (simp add: Cons_nth_drop_Suc)
    have m: "max_idx - j = Suc (max_idx - Suc j)" using True by simp
    show ?thesis
    proof (cases "CMD_START_PATTERN (parts ! j)")
      case True
      with \<open>j < max_idx\<close> show ?thesis by (subst extract_args_loop.simps) (simp add: d m)
    next
      case False
      with \<open>j < max_idx\<close> 1 show ?thesis by (subst extract_args_loop.simps) (simp add: d m)
    qed
  qed
qed

lemma extract_args_takeWhile:
  "extract_args parts n = takeWhile (\<lambda>t. \<not> CMD_START_PATTERN t) (take n parts)"
  by (simp add: extract_args_def extract_args_loop_eq min_def)

text \<open>
  C1. For all token lists and maximum arities, \<open>extract_args\<close> looks at no more than
  \<open>min(len(parts), max_n_args)\<close> tokens, stops at the first of them that matches
  \<open>_CMD_START_PATTERN\<close>, and returns the tokens before it; for the tokens
  \<open>X1 Y2 N9 G01\<close> and arity 3 it returns \<open>X1 Y2\<close>.
\<close>

theorem extract_args_prefix:
  "extract_args parts max_n_args =
     takeWhile (\<lambda>t. \<not> CMD_START_PATTERN t) (take (min (length parts) max_n_args) parts)
   \<and> extract_args [''X1'', ''Y2'', ''N9'', ''G01''] 3 = [''X1'', ''Y2'']"
proof
  show "extract_args parts max_n_args =
     takeWhile (\<lambda>t. \<not> CMD_START_PATTERN t) (take (min (length parts) max_n_args) parts)"
    by (simp add: extract_args_def extract_args_loop_eq)
  show "extract_args [''X1'', ''Y2'', ''N9'', ''G01''] 3 = [''X1'', ''Y2'']"
    by (simp add: extract_args_takeWhile CMD_START_PATTERN_def isdigit_def)
qed

section \<open>Properties of the line classifier\<close>

lemma set_strip: "set (strip l) \<subseteq> set l"
proof -
  have "set (strip l) \<subseteq> set (dropWhile isspace l)"
    unfolding strip_def using set_dropWhileD by fastforce
  also have "\<dots> \<subseteq> set l" using set_dropWhileD by fastforce
  finally show ?thesis .
qed

lemma strip_snoc_space: "isspace x \<Longrightarrow> strip (xs @ [x]) = strip xs"
proof (induction xs)
  case Nil
  then show ?case by (simp add: strip_def)
next
  case (Cons a xs)
  then show ?case by (simp add: strip_def)
qed

lemma strip_no_newline:
  assumes "newline \<notin> set (butlast l)"
  shows "newline \<notin> set (strip l)"
proof (cases l rule: rev_cases)
  case Nil
  then show ?thesis by (simp add: strip_def)
next
  case (snoc xs x)
  show ?thesis
  proof (cases "x = newline")
    case True
    then have "isspace x" by (simp add: isspace_def newline_def)
    then have "strip l = strip xs" using snoc by (simp add: strip_snoc_space)
    moreover have "newline \<notin> set xs" using assms snoc by simp
    ultimately show ?thesis using set_strip [of xs] by auto
  next
    case False
    then have "newline \<notin> set l" using assms snoc by simp
    then show ?thesis using set_strip [of l] by auto
  qed
qed

lemma dot_star_paren_end_iff:
  "newline \<notin> set cs \<Longrightarrow> dot_star_paren_end cs \<longleftrightarrow> cs \<noteq> [] \<and> last cs = CHR '')''"
  by (induction cs) (auto simp: at_end_def)

lemma is_comment_iff: "newline \<notin> set t \<Longrightarrow> is_comment t \<longleftrightarrow> spec_comment t"
proof (cases t)
  case Nil
  then show ?thesis by (simp add: is_comment_def COMMENT_PATTERN_def spec_comment_def)
next
  case (Cons c cs)
  assume "newline \<notin> set t"
  then have "newline \<notin> set cs" using Cons by simp
  then have e: "dot_star_paren_end cs \<longleftrightarrow> cs \<noteq> [] \<and> last cs = CHR '')''"
    by (rule dot_star_paren_end_iff)
  have "is_comment t \<longleftrightarrow> c = CHR ''('' \<and> cs \<noteq> [] \<and> last cs = CHR '')''"
    using Cons e by (simp add: is_comment_def COMMENT_PATTERN_def)
  moreover have "spec_comment t \<longleftrightarrow> c = CHR ''('' \<and> cs \<noteq> [] \<and> last cs = CHR '')''"
    using Cons by (cases cs) (auto simp: spec_comment_def)
  ultimately show ?thesis by simp
qed

lemma is_program_number_iff:
  "newline \<notin> set t \<Longrightarrow> is_program_number t \<longleftrightarrow> spec_program_number t"
  by (auto simp: is_program_number_def PROGRAM_NUM_PATTERN_def spec_program_number_def at_end_def
           split: list.splits)

lemma non_empty_lines_filter:
  "\<forall>l\<in>set lines. newline \<notin> set (strip l) \<Longrightarrow>
   non_empty_lines lines = filter spec_relevant (map strip lines)"
  by (induction lines) (simp_all add: Let_def spec_relevant_def is_comment_iff is_program_number_iff)

lemma enumerate_from_zip: "enumerate_from n xs = zip [n..<n + length xs] xs"
proof (induction xs arbitrary: n)
  case Nil
  then show ?case by simp
next
  case (Cons x xs)
  have "[n..<n + length (x # xs)] = n # [Suc n..<Suc n + length xs]"
    using upt_conv_Cons [of n "n + length (x # xs)"] by simp
  then show ?case using Cons [of "Suc n"] by simp
qed

text \<open>
  C7. For a sequence of raw lines, each with a newline at most as its last character, the
  classifier yields the trimmed lines that are not empty, not a full-line comment, not a
  program number and not \<open>%\<close>, in their order, numbered from one over the surviving
  lines alone; a filtered line therefore never moves the number of a surviving one.
\<close>

theorem line_classifier_refines_spec:
  assumes "\<forall>l\<in>set lines. newline \<notin> set (butlast l)"
  shows "enumerate_from 1 (non_empty_lines lines) = spec_classify lines"
proof -
  have "\<forall>l\<in>set lines. newline \<notin> set (strip l)"
    using assms strip_no_newline by blast
  then have "non_empty_lines lines = filter spec_relevant (map strip lines)"
    by (rule non_empty_lines_filter)
  then show ?thesis
    by (simp add: spec_classify_def enumerate_from_zip Let_def)
qed

theorem line_classifier_refines_spec_witness:
  "list_all (\<lambda>l. newline \<notin> set (butlast l))
     [''%'', ''O0001'', ''(setup)'', ''  N1 G90 '', [], ''N2 G28'']
   \<and> enumerate_from 1 (non_empty_lines [''%'', ''O0001'', ''(setup)'', ''  N1 G90 '', [], ''N2 G28''])
       = [(1, ''N1 G90''), (2, ''N2 G28'')]"
proof -
  have h: "\<forall>l\<in>set [''%'', ''O0001'', ''(setup)'', ''  N1 G90 '', [], ''N2 G28'']. newline \<notin> set (butlast l)"
    by (simp add: newline_def)
  have "spec_classify [''%'', ''O0001'', ''(setup)'', ''  N1 G90 '', [], ''N2 G28'']
          = [(1, ''N1 G90''), (2, ''N2 G28'')]"
    by (simp add: spec_classify_def spec_relevant_def spec_comment_def spec_program_number_def
        strip_def isspace_def isdigit_def upt_rec)
  then show ?thesis using h line_classifier_refines_spec [OF h] by simp
qed

section \<open>The shape check of a line\<close>

lemma isspace_not_isdigit: "isspace c \<Longrightarrow> \<not> isdigit c"
  by (auto simp: isspace_def isdigit_def)

lemma CMD_PATTERN_iff:
  "CMD_PATTERN s \<longleftrightarrow>
     (\<exists>ds w r. s = CHR ''N'' # ds @ w # r \<and> ds \<noteq> [] \<and> list_all isdigit ds \<and> isspace w
        \<and> dot_star_end r)"
proof
  assume p: "CMD_PATTERN s"
  show "\<exists>ds w r. s = CHR ''N'' # ds @ w # r \<and> ds \<noteq> [] \<and> list_all isdigit ds \<and> isspace w
        \<and> dot_star_end r"
  proof (cases s)
    case Nil
    with p show ?thesis by (simp add: CMD_PATTERN_def)
  next
    case s: (Cons c cs)
    show ?thesis
    proof (cases "dropWhile isdigit cs")
      case Nil
      with p s show ?thesis by (simp add: CMD_PATTERN_def)
    next
      case d: (Cons w r)
      from p s d have c: "c = CHR ''N''" and t: "takeWhile isdigit cs \<noteq> []"
        and w: "isspace w" and r: "dot_star_end r"
        by (simp_all add: CMD_PATTERN_def)
      have e: "takeWhile isdigit cs @ w # r = cs"
        by (metis d takeWhile_dropWhile_id)
      have a: "list_all isdigit (takeWhile isdigit cs)"
        unfolding list_all_iff by (blast dest: set_takeWhileD)
      have "s = CHR ''N'' # takeWhile isdigit cs @ w # r"
        unfolding s c e ..
      with t a w r show ?thesis by blast
    qed
  qed
next
  assume "\<exists>ds w r. s = CHR ''N'' # ds @ w # r \<and> ds \<noteq> [] \<and> list_all isdigit ds \<and> isspace w
        \<and> dot_star_end r"
  then obtain ds w r where s: "s = CHR ''N'' # ds @ w # r" and ds: "ds \<noteq> []" "list_all isdigit ds"
    and w: "isspace w" "dot_star_end r" by blast
  have nd: "\<not> isdigit w" using w(1) by (rule isspace_not_isdigit)
  have all: "\<And>x. x \<in> set ds \<Longrightarrow> isdigit x" using ds(2) by (simp add: list_all_iff)
  have t: "takeWhile isdigit (ds @ w # r) = ds"
    using nd all by (simp add: takeWhile_append2)
  have d: "dropWhile isdigit (ds @ w # r) = w # r"
    using nd all by (simp add: dropWhile_append2)
  show "CMD_PATTERN s"
    unfolding CMD_PATTERN_def s by (simp add: t d ds w)
qed

text \<open>
  C4, as the source has it. Every surviving line is matched against \<open>_CMD_PATTERN\<close>
  before it is split into tokens. The pattern holds exactly of the lines that start
  with \<open>N\<close>, one or more digits and one whitespace character, followed by content
  without a newline (but for one at the very end); the \<open>N\<close>-number is not optional. A
  line that fails the pattern ends the run with the error that carries the line's
  number, and no call is made for it or for any later line.
\<close>

theorem line_shape_check:
  "(CMD_PATTERN line \<longleftrightarrow>
      (\<exists>ds w r. line = CHR ''N'' # ds @ w # r \<and> ds \<noteq> [] \<and> list_all isdigit ds \<and> isspace w
         \<and> dot_star_end r))
   \<and> (\<not> CMD_PATTERN line \<longrightarrow>
        parse_numbered self ((ln_no, line) # rest) out = (out, Some (Expected_command ln_no)))"
  using CMD_PATTERN_iff [of line] by simp

theorem line_shape_check_witness:
  "\<not> CMD_PATTERN ''G01 X1''
   \<and> parse_numbered MachineClient_init [(3, ''G01 X1''), (4, ''N4 G90'')] [Home]
       = ([Home], Some (Expected_command 3))"
proof -
  have h: "\<not> CMD_PATTERN ''G01 X1''" by (simp add: CMD_PATTERN_def)
  then show ?thesis
    using line_shape_check [of "''G01 X1''" MachineClient_init 3 "[(4, ''N4 G90'')]" "[Home]"]
    by blast
qed

text \<open>
  C4, as the claim states it, fails: the line \<open>G01 X1\<close> has no leading \<open>N\<close>-number and
  has content separated by a space, and the shape check rejects it.
\<close>

theorem line_shape_check_counterexample:
  "\<not> CMD_PATTERN ''G01 X1''
   \<and> parse_gcode MachineClient_init [''G01 X1''] = ([], Some (Expected_command 1))"
  by (simp add: eval_defs)

section \<open>Runs of the interpreter on the specification's example lines\<close>

text \<open>
  C6. The single line \<open>N2 G00 X10.000 Y5.000\<close> makes exactly one call,
  \<open>move(10.0, 5.0, 0.0)\<close>: the axis that is left out keeps the default \<open>0.0\<close> of the
  general branch.
\<close>

theorem rapid_move_two_axes:
  "parse_gcode MachineClient_init [''N2 G00 X10.000 Y5.000'']
     = ([Move (Finite 10) (Finite 5) (Finite 0)], None)"
  by (simp add: eval_defs)

text \<open>
  C5. The line \<open>N4 M06 T12\<close> makes two tool changes where the claim expects the single
  call \<open>change_tool("12")\<close>. The registry gives \<open>M06\<close> the handler of the \<open>T\<close> token,
  \<open>_parse_tool\<close>, which takes as the tool's name what follows the first character of its
  token: for the token \<open>M06\<close> that is \<open>06\<close>, the digits of the code and not the name of
  a tool. The call that the claim expects, with the name \<open>12\<close>, comes second.
\<close>

theorem tool_change_line:
  "parse_gcode MachineClient_init [''N4 M06 T12'']
     = ([Change_tool ''06'', Change_tool ''12''], None)"
  by (simp add: eval_defs)

text \<open>
  C3, as the source has it. The line \<open>N7 ZZZ\<close> passes the shape check; its token
  \<open>ZZZ\<close> resolves to no key, and the run ends with the unknown-code error that carries
  the token and the line's number, whatever that number and the calls made before.
\<close>

theorem unknown_token_line:
  "CMD_PATTERN ''N7 ZZZ''
   \<and> parse_numbered MachineClient_init ((ln_no, ''N7 ZZZ'') # rest) out
       = (out, Some (Unknown_code ln_no ''ZZZ''))"
  by (simp add: eval_defs)

text \<open>
  C3, as the claim states it, fails: neither as the seventh surviving line nor as the
  only line does \<open>N7 ZZZ\<close> raise the error of the shape check.
\<close>

theorem unknown_token_line_counterexample:
  "snd (parse_gcode MachineClient_init
     [''N1 G90'', ''N2 G90'', ''N3 G90'', ''N4 G90'', ''N5 G90'', ''N6 G90'', ''N7 ZZZ''])
     \<noteq> Some (Expected_command 7)
   \<and> snd (parse_gcode MachineClient_init [''N7 ZZZ'']) \<noteq> Some (Expected_command 1)"
  by (simp add: eval_defs)

text \<open>
  C2. The program made of the specification's example lines \<open>N1\<close> to \<open>N6\<close>: the sixth
  line, \<open>N6 G01 X1 Y2 Q3\<close>, ends the run with the unknown-parameter error for line 6,
  and the parameter the error carries is \<open>X1\<close>, the first argument, where the claim
  expects the offending \<open>Q3\<close>.
\<close>

theorem unknown_parameter_cites_first_argument:
  "parse_gcode MachineClient_init
     [''N1 G90'', ''N2 G00 X10.000 Y5.000'', ''N3 G01 X1.5'', ''N4 M06 T12'', ''N5 S1200 F0.5'',
      ''N6 G01 X1 Y2 Q3'']
   = ([Move (Finite 10) (Finite 5) (Finite 0), Move_x (Finite (3 / 2)),
       Change_tool ''06'', Change_tool ''12'', Set_spindle_speed 1200,
       Set_feed_rate (Finite (1 / 2))],
      Some (Unknown_parameter 6 ''X1'' ''G01''))"
  by (simp add: eval_defs)

section \<open>Single handlers\<close>

text \<open>
  C10. With no argument, \<open>_parse_move\<close> for \<open>G01\<close> neither prints the rapid positioning
  message nor raises: the general branch runs over no argument and calls
  \<open>move(0.0, 0.0, 0.0)\<close>. Only \<open>G00\<close> has a branch of its own for no argument. The line
  \<open>N1 G01\<close> shows it in a run.
\<close>

theorem linear_move_without_arguments:
  "parse_move ''G01'' ln_no [] = Inr [Move (Finite 0) (Finite 0) (Finite 0)]
   \<and> parse_move ''G00'' ln_no [] = Inr [Print ''Set rapid positioning'']
   \<and> parse_gcode MachineClient_init [''N1 G01''] = ([Move (Finite 0) (Finite 0) (Finite 0)], None)"
  by (simp add: eval_defs)

text \<open>
  C8, as the source has it. \<open>G28\<close> is registered with three arguments at most: when the
  token at position \<open>ii\<close> is \<open>G28\<close>, the engine takes as its arguments the tokens before
  the first command start among the next three, ignores them, calls \<open>home()\<close> with no
  parameter, and goes on after the arguments.
\<close>

theorem home_dispatch:
  assumes "ii < length parts" and "parts ! ii = ''G28''"
  shows "dispatch_loop MachineClient_init ln_no parts ii out =
     (let args = takeWhile (\<lambda>t. \<not> CMD_START_PATTERN t) (take 3 (drop (ii + 1) parts))
      in dispatch_loop MachineClient_init ln_no parts (ii + (length args + 1)) (out @ [Home]))"
  using assms
  by (subst dispatch_loop.simps)
     (simp add: startswith_def key_of_def lookup_def MachineClient_init_def extract_args_takeWhile)

theorem home_dispatch_witness:
  "1 < length [''N1'', ''G28'', ''X0'', ''Y0'', ''G90'']
   \<and> [''N1'', ''G28'', ''X0'', ''Y0'', ''G90''] ! 1 = ''G28''
   \<and> dispatch_loop MachineClient_init 1 [''N1'', ''G28'', ''X0'', ''Y0'', ''G90''] 1 []
       = ([Home], None)"
proof -
  have step: "dispatch_loop MachineClient_init 1 [''N1'', ''G28'', ''X0'', ''Y0'', ''G90''] 1 []
       = dispatch_loop MachineClient_init 1 [''N1'', ''G28'', ''X0'', ''Y0'', ''G90''] 4 [Home]"
    using home_dispatch [of 1 "[''N1'', ''G28'', ''X0'', ''Y0'', ''G90'']" 1 "[]"]
    by (simp add: CMD_START_PATTERN_def isdigit_def eval_nat_numeral)
  have rest: "dispatch_loop MachineClient_init 1 [''N1'', ''G28'', ''X0'', ''Y0'', ''G90''] 4 [Home]
       = ([Home], None)"
    by (simp add: eval_defs)
  show ?thesis using step rest by simp
qed

text \<open>
  C8, as the claim states it, fails: dispatching \<open>G28\<close> before the tokens \<open>X0 Y0 Z0\<close>
  takes all three as its arguments, so that the line \<open>N1 G28 X0 Y0 Z0\<close> runs without an
  error.
\<close>

theorem home_takes_arguments_counterexample:
  "extract_args [''X0'', ''Y0'', ''Z0'']
      (case lookup MachineClient_init (key_of ''G28'') of None \<Rightarrow> 0 | Some cmd \<Rightarrow> n_args cmd)
     = [''X0'', ''Y0'', ''Z0'']
   \<and> parse_gcode MachineClient_init [''N1 G28 X0 Y0 Z0''] = ([Home], None)"
  by (simp add: eval_defs)

end
